theory Spec2Isabelle
  imports Complex_Main "HOL-Library.Multiset"
begin

section \<open>Values shared by the scripts\<close>

text \<open>
  A pandas cell that may be missing is an option: \<open>None\<close> is NaN / null.
  Numeric cells (coverage percentages, births) are exact rationals here: the arithmetic
  of the scripts is modelled operation by operation on exact values, and the rounding of
  float64 is written out apart, in the subsection on the float64 arithmetic of np.average.
  A Python \<open>str\<close> is a \<open>string\<close> whose characters are the code points 0..255,
  which covers every name of the shipped mapping table.
\<close>

datatype py_error = ZeroDivisionError | KeyError | IndexError

datatype indicator = Ind_ANC4 | Ind_SBA

text \<open>A row of \<open>merged_health_data.csv\<close>, the table \<open>merge_datasets\<close> produces
  when all three sources are joined.\<close>

record merged_row =
  Country :: string
  ISO3Code :: "string option"
  Mortality_Status_Binary :: "string option"
  ANC4 :: "rat option"
  SBA :: "rat option"
  Births_2022 :: "rat option"

text \<open>The dictionary \<open>calculate_population_weighted_coverage\<close> returns.\<close>

record summary =
  track_status :: string
  s_indicator :: indicator
  n_countries :: nat
  total_births :: "rat option"
  weighted_coverage :: "rat option"
  min_coverage :: "rat option"
  max_coverage :: "rat option"
  median_coverage :: "rat option"
  countries :: "string list"

section \<open>analysis/01\_calculate\_coverage.py\<close>

text \<open>\<open>df[indicator]\<close> for the two indicator columns the callers pass.\<close>

fun indicator_col :: "indicator \<Rightarrow> merged_row \<Rightarrow> rat option" where
  "indicator_col Ind_ANC4 r = ANC4 r"
| "indicator_col Ind_SBA r = SBA r"

text \<open>
  \<open>np.average(a, weights=w)\<close>: numpy sums the weights first and raises
  ZeroDivisionError ("Weights sum to zero, can't be normalized") when the sum is zero;
  otherwise it returns \<open>sum(a * w) / sum(w)\<close>. This is the exact value of that
  formula, without the rounding of float64.
\<close>

definition np_average :: "rat list \<Rightarrow> rat list \<Rightarrow> py_error + rat" where
  "np_average a w =
     (let scl = sum_list w
      in if scl = 0 then Inl ZeroDivisionError
         else Inr (sum_list (map2 (*) a w) / scl))"

text \<open>\<open>Series.min()\<close>, \<open>Series.max()\<close>, \<open>Series.median()\<close> of a series without
  missing values; on an empty series pandas returns NaN.\<close>

fun series_min :: "rat list \<Rightarrow> rat option" where
  "series_min [] = None"
| "series_min (x # xs) = Some (fold min xs x)"

fun series_max :: "rat list \<Rightarrow> rat option" where
  "series_max [] = None"
| "series_max (x # xs) = Some (fold max xs x)"

definition series_median :: "rat list \<Rightarrow> rat option" where
  "series_median xs =
     (let s = sort xs; n = length s
      in if n = 0 then None
         else if odd n then Some (s ! (n div 2))
         else Some ((s ! (n div 2 - 1) + s ! (n div 2)) / 2))"

text \<open>The boolean mask of the first statement: matching status, indicator present,
  births present. A missing status equals no string.\<close>

definition subset_of :: "merged_row list \<Rightarrow> indicator \<Rightarrow> string \<Rightarrow> merged_row list" where
  "subset_of df ind ts =
     filter (\<lambda>r. Mortality_Status_Binary r = Some ts
                \<and> indicator_col ind r \<noteq> None
                \<and> Births_2022 r \<noteq> None) df"

text \<open>The two columns read off the subset; no cell of either is missing there.\<close>

definition weights_of :: "merged_row list \<Rightarrow> rat list" where
  "weights_of sub = map (\<lambda>r. the (Births_2022 r)) sub"

definition coverage_values_of :: "indicator \<Rightarrow> merged_row list \<Rightarrow> rat list" where
  "coverage_values_of ind sub = map (\<lambda>r. the (indicator_col ind r)) sub"

definition calculate_population_weighted_coverage ::
    "merged_row list \<Rightarrow> indicator \<Rightarrow> string \<Rightarrow> py_error + summary" where
  "calculate_population_weighted_coverage df ind ts =
     (let sub = subset_of df ind ts
      in if length sub = 0 then
           Inr \<lparr> track_status = ts, s_indicator = ind, n_countries = 0,
                 total_births = Some 0, weighted_coverage = None,
                 min_coverage = None, max_coverage = None, median_coverage = None,
                 countries = [] \<rparr>
         else
           let weights = weights_of sub;
               coverage_values = coverage_values_of ind sub;
               abs_weights = map abs weights
           in case np_average coverage_values abs_weights of
                Inl e \<Rightarrow> Inl e
              | Inr wc \<Rightarrow>
                  Inr \<lparr> track_status = ts, s_indicator = ind,
                        n_countries = length sub,
                        total_births = Some (sum_list weights),
                        weighted_coverage = Some wc,
                        min_coverage = series_min coverage_values,
                        max_coverage = series_max coverage_values,
                        median_coverage = series_median coverage_values,
                        countries = map Country sub \<rparr>)"

subsection \<open>The float64 arithmetic of np.average\<close>

text \<open>
  pandas holds the coverage values as float64, and \<open>np.average\<close> rounds the result of
  every operation to the nearest float64, ties to even. \<open>f64_round\<close> is that rounding
  on the rationals: the magnitude is scaled by powers of two into the range of a 53-bit
  significand (the exponent not below -1074, where the subnormal numbers begin), rounded
  to an integer there and scaled back. Magnitudes that round to infinity are outside it.
\<close>

fun f64_scale :: "nat \<Rightarrow> rat \<Rightarrow> int \<Rightarrow> rat \<times> int" where
  "f64_scale n x e =
     (if n = 0 then (x, e)
      else if x < 2 ^ 52 \<and> - 1074 < e then f64_scale (n - 1) (2 * x) (e - 1)
      else if 2 ^ 53 \<le> x then f64_scale (n - 1) (x / 2) (e + 1)
      else (x, e))"

declare f64_scale.simps [simp del]

definition round_half_even :: "rat \<Rightarrow> int" where
  "round_half_even x =
     (let f = \<lfloor>x\<rfloor>; d = x - of_int f
      in if d < 1 / 2 then f else if 1 / 2 < d then f + 1 else if even f then f else f + 1)"

definition f64_round :: "rat \<Rightarrow> rat" where
  "f64_round x =
     (if x = 0 then 0
      else let (y, e) = f64_scale 2200 \<bar>x\<bar> 0; m = round_half_even y
           in sgn x * of_int m * (if 0 \<le> e then 2 ^ nat e else 1 / 2 ^ nat (- e)))"

text \<open>
  \<open>np.average(a, weights=w)\<close> on a group of one row, with value \<open>v\<close> and weight
  \<open>w\<close>: the product \<open>v * w\<close> is rounded, the two sums have a single term and add
  nothing, and the quotient is rounded.
\<close>

definition np_average_one_row_f64 :: "rat \<Rightarrow> rat \<Rightarrow> py_error + rat" where
  "np_average_one_row_f64 v w =
     (if w = 0 then Inl ZeroDivisionError
      else Inr (f64_round (f64_round (v * w) / w)))"

section \<open>Python strings\<close>

text \<open>\<open>str.isspace\<close> on the code points 0..255: tab to carriage return, the four
  separators 0x1C..0x1F, space, NEL (0x85) and the no-break space (0xA0).\<close>

definition py_isspace :: "char \<Rightarrow> bool" where
  "py_isspace c \<longleftrightarrow>
     c \<in> set [CHR 0x09, CHR 0x0A, CHR 0x0B, CHR 0x0C, CHR 0x0D,
               CHR 0x1C, CHR 0x1D, CHR 0x1E, CHR 0x1F, CHR 0x20, CHR 0x85, CHR 0xA0]"

definition py_strip :: "string \<Rightarrow> string" where
  "py_strip s = rev (dropWhile py_isspace (rev (dropWhile py_isspace s)))"

text \<open>\<open>str.lower\<close> on the code points 0..255: A..Z and the accented capitals
  0xC0..0xDE (without the multiplication sign 0xD7) move up by 32.\<close>

definition py_lower_char :: "char \<Rightarrow> char" where
  "py_lower_char c =
     (let n = (of_char c :: nat)
      in if (65 \<le> n \<and> n \<le> 90) \<or> (192 \<le> n \<and> n \<le> 222 \<and> n \<noteq> 215)
         then char_of (n + 32) else c)"

definition py_lower :: "string \<Rightarrow> string" where
  "py_lower s = map py_lower_char s"

text \<open>\<open>s.startswith(p)\<close> and the substring test \<open>p in s\<close>.\<close>

fun py_startswith :: "string \<Rightarrow> string \<Rightarrow> bool" where
  "py_startswith [] s = True"
| "py_startswith (p # ps) [] = False"
| "py_startswith (p # ps) (c # cs) = (p = c \<and> py_startswith ps cs)"

fun py_in :: "string \<Rightarrow> string \<Rightarrow> bool" where
  "py_in p [] = (p = [])"
| "py_in p (c # cs) = (py_startswith p (c # cs) \<or> py_in p cs)"

text \<open>Python's \<open>str(x)\<close> of a text cell that may be missing: the float NaN prints as
  \<open>nan\<close>. It is also what the column method \<open>astype(str)\<close> does to a cell before
  pandas 3.\<close>

fun astype_str :: "string option \<Rightarrow> string" where
  "astype_str None = ''nan''"
| "astype_str (Some s) = s"

section \<open>data\_preparation/02\_clean\_merge\_data.py: the cleaners\<close>

subsection \<open>clean\_unicef\_data, up to the most recent estimate\<close>














subsection \<open>clean\_population\_data\<close>

datatype cell = Text string | Number rat | Missing

record dataframe =
  columns :: "string list"
  rows :: "(string \<Rightarrow> cell) list"

record population_cols =
  Births :: "rat option"

text \<open>The first column whose lower-cased name contains one of the terms.\<close>

definition find_col :: "string list \<Rightarrow> string list \<Rightarrow> string option" where
  "find_col terms cols =
     List.find (\<lambda>col. list_ex (\<lambda>term. py_in term (py_lower col)) terms) cols"

definition find_births_col :: "string list \<Rightarrow> string option" where
  "find_births_col cols =
     (case find_col [''births''] cols of
        Some c \<Rightarrow> Some c
      | None \<Rightarrow> find_col [''birth'', ''natality''] cols)"

text \<open>
  \<open>pd.to_numeric(errors='coerce')\<close> on one cell; how pandas reads a number out of
  text is the parameter \<open>parse\<close>. A number in the country column is carried as the
  text \<open>num_str\<close> gives it.
\<close>

fun to_numeric :: "(string \<Rightarrow> rat option) \<Rightarrow> cell \<Rightarrow> rat option" where
  "to_numeric parse (Number q) = Some q"
| "to_numeric parse (Text s) = parse s"
| "to_numeric parse Missing = None"

fun name_cell :: "(rat \<Rightarrow> string) \<Rightarrow> cell \<Rightarrow> string option" where
  "name_cell num_str (Text s) = Some s"
| "name_cell num_str (Number q) = Some (num_str q)"
| "name_cell num_str Missing = None"

text \<open>The result is the lines of warning printed and the cleaned table; of the
  printed lines only the warnings are kept.\<close>

definition clean_population_data ::
    "(string \<Rightarrow> rat option) \<Rightarrow> (rat \<Rightarrow> string) \<Rightarrow> dataframe
       \<Rightarrow> py_error + (string list \<times> (string option \<times> population_cols) list)" where
  "clean_population_data parse num_str df =
     (case (case find_col [''country'', ''region'', ''area''] (columns df) of
              Some c \<Rightarrow> Inr c
            | None \<Rightarrow> (case columns df of [] \<Rightarrow> Inl IndexError | c # _ \<Rightarrow> Inr c)) of
        Inl e \<Rightarrow> Inl e
      | Inr country_col \<Rightarrow>
          if ''Year'' \<notin> set (columns df) then Inl KeyError
          else
            let df_2022 = filter (\<lambda>r. r ''Year'' = Number 2022) (rows df)
            in (case find_births_col (columns df) of
                  Some births_col \<Rightarrow>
                    let pop_data = map (\<lambda>r. (name_cell num_str (r country_col),
                                              \<lparr> Births = to_numeric parse (r births_col) \<rparr>)) df_2022
                    in Inr ([], filter (\<lambda>(c, p). Births p \<noteq> None) pop_data)
                | None \<Rightarrow>
                    Inr ([''Warning: Could not find births column in population data''], [])))"

subsection \<open>clean\_mortality\_classification: classify\_status\<close>

text \<open>The argument is the text of the \<open>Status.U5MR\<close> cell, or \<open>None\<close> when
  \<open>pd.isna\<close> holds; the result \<open>None\<close> is \<open>np.nan\<close>.\<close>

definition classify_status :: "string option \<Rightarrow> string option" where
  "classify_status status =
     (case status of
        None \<Rightarrow> None
      | Some s \<Rightarrow>
          let status_lower = py_lower s
          in if status_lower \<in> set [''achieved'', ''on-track''] then Some ''on-track''
             else if py_in ''acceleration needed'' status_lower then Some ''off-track''
             else Some ''off-track'')"

section \<open>data\_preparation/02\_clean\_merge\_data.py: names and the merge\<close>

subsection \<open>create\_country\_mapping and standardize\_country\_names\<close>

text \<open>The dictionary literal, in its order; \<open>CHR 0xF4\<close> is o with circumflex and
  \<open>CHR 0xFC\<close> is u with diaeresis.\<close>

definition create_country_mapping :: "(string \<times> string) list" where
  "create_country_mapping =
    [(''United States of America'', ''United States''),
     (''USA'', ''United States''),
     (''US'', ''United States''),
     (''United Kingdom'', ''United Kingdom of Great Britain and Northern Ireland''),
     (''UK'', ''United Kingdom of Great Britain and Northern Ireland''),
     (''Russia'', ''Russian Federation''),
     (''South Korea'', ''Republic of Korea''),
     (''North Korea'', ''Democratic People'' @ [CHR 0x27] @ ''s Republic of Korea''),
     (''Iran'', ''Iran (Islamic Republic of)''),
     (''Venezuela'', ''Venezuela (Bolivarian Republic of)''),
     (''Bolivia'', ''Bolivia (Plurinational State of)''),
     (''Tanzania'', ''United Republic of Tanzania''),
     (''Congo'', ''Congo''),
     (''Democratic Republic of the Congo'', ''Democratic Republic of the Congo''),
     (''Ivory Coast'', ''C'' @ [CHR 0xF4] @ ''te d'' @ [CHR 0x27] @ ''Ivoire''),
     (''Cape Verde'', ''Cabo Verde''),
     (''Swaziland'', ''Eswatini''),
     (''Macedonia'', ''North Macedonia''),
     (''Myanmar'', ''Myanmar''),
     (''Burma'', ''Myanmar''),
     (''East Timor'', ''Timor-Leste''),
     (''Moldova'', ''Republic of Moldova''),
     (''Syria'', ''Syrian Arab Republic''),
     (''Laos'', ''Lao People'' @ [CHR 0x27] @ ''s Democratic Republic''),
     (''Vietnam'', ''Viet Nam''),
     (''Brunei'', ''Brunei Darussalam''),
     (''Micronesia'', ''Micronesia (Federated States of)''),
     (''Palestine'', ''State of Palestine''),
     (''Turkey'', ''T'' @ [CHR 0xFC] @ ''rkiye'')]"

text \<open>\<open>Series.replace(mapping)\<close> on one cell: a cell equal to a key becomes the key's
  value, every mask being taken on the original column; a missing cell equals no key.\<close>

definition replace_mapping :: "(string \<times> string) list \<Rightarrow> string option \<Rightarrow> string option" where
  "replace_mapping mapping c =
     (case c of
        None \<Rightarrow> None
      | Some s \<Rightarrow> (case map_of mapping s of None \<Rightarrow> Some s | Some t \<Rightarrow> Some t))"

text \<open>What the two assignments of \<open>standardize_country_names\<close> do to one cell of the
  country column: replace, then \<open>astype(str).str.strip()\<close>. On a cell that holds text
  this is the same in every pandas version; on a missing cell it is the behaviour before
  pandas 3, and the two behaviours are set apart in the last subsection of this section.\<close>

definition standardize_name :: "(string \<times> string) list \<Rightarrow> string option \<Rightarrow> string" where
  "standardize_name mapping c = py_strip (astype_str (replace_mapping mapping c))"

text \<open>A table is a list of rows, each the cell of the \<open>Country\<close> column paired with the
  other columns. The optional argument \<open>mapping=None\<close> is an option.\<close>

definition standardize_country_names ::
    "(string option \<times> 'a) list \<Rightarrow> (string \<times> string) list option \<Rightarrow> (string \<times> 'a) list" where
  "standardize_country_names df mapping =
     (let m = (case mapping of None \<Rightarrow> create_country_mapping | Some m \<Rightarrow> m)
      in map (\<lambda>(c, rest). (standardize_name m c, rest)) df)"

subsection \<open>filter\_individual\_countries\<close>

text \<open>
  The regular expressions of \<open>regional_patterns\<close> use four constructs: a character,
  \<open>.\<close> (any character but a newline), \<open>.*\<close> and \<open>$\<close> (the end of the text, or
  the position before a newline that ends it). \<open>case=False\<close> compares characters
  after lower-casing.
\<close>

datatype re_atom = Lit char | Dot | Dot_star | Eol

fun match_here :: "re_atom list \<Rightarrow> string \<Rightarrow> bool" where
  "match_here [] s = True"
| "match_here (Lit c # ps) [] = False"
| "match_here (Lit c # ps) (x # xs) =
     (py_lower_char x = py_lower_char c \<and> match_here ps xs)"
| "match_here (Dot # ps) [] = False"
| "match_here (Dot # ps) (x # xs) = (x \<noteq> CHR 0x0A \<and> match_here ps xs)"
| "match_here (Dot_star # ps) [] = match_here ps []"
| "match_here (Dot_star # ps) (x # xs) =
     (match_here ps (x # xs) \<or> (x \<noteq> CHR 0x0A \<and> match_here (Dot_star # ps) xs))"
| "match_here (Eol # ps) s = ((s = [] \<or> s = [CHR 0x0A]) \<and> match_here ps s)"

fun re_search :: "re_atom list \<Rightarrow> string \<Rightarrow> bool" where
  "re_search ps [] = match_here ps []"
| "re_search ps (x # xs) = (match_here ps (x # xs) \<or> re_search ps xs)"

definition lits :: "string \<Rightarrow> re_atom list" where
  "lits s = map Lit s"

definition regional_patterns :: "re_atom list list" where
  "regional_patterns =
    [lits ''('' @ [Dot_star] @ lits ''SDGRC'' @ [Dot_star] @ lits '')'',
     lits ''Africa'' @ [Eol],
     lits ''Asia'' @ [Eol],
     lits ''Europe'' @ [Eol],
     lits ''America'',
     lits ''World'',
     lits ''Developed'',
     lits ''Developing'',
     lits ''Least developed'',
     lits ''Land'' @ [Dot] @ lits ''locked'',
     lits ''Small island'',
     lits ''Sub-Saharan'',
     lits ''Northern Africa'',
     lits ''Eastern Africa'',
     lits ''Western Africa'',
     lits ''Middle Africa'',
     lits ''Southern Africa'',
     lits ''Eastern Asia'',
     lits ''South-eastern Asia'',
     lits ''Southern Asia'',
     lits ''Western Asia'',
     lits ''Central Asia'',
     lits ''Eastern Europe'',
     lits ''Northern Europe'',
     lits ''Southern Europe'',
     lits ''Western Europe'',
     lits ''Caribbean'',
     lits ''Central America'',
     lits ''South America'',
     lits ''Northern America'',
     lits ''Oceania'',
     lits ''Polynesia'',
     lits ''Melanesia'',
     lits ''Micronesia'',
     lits ''More developed'',
     lits ''Less developed'',
     lits ''High income'',
     lits ''Upper middle income'',
     lits ''Lower middle income'',
     lits ''Low income'']"

text \<open>\<open>str.contains(combined_pattern, case=False)\<close>: some alternative of the joined
  pattern matches somewhere in the name.\<close>

definition contains_regional :: "string \<Rightarrow> bool" where
  "contains_regional name = list_ex (\<lambda>p. re_search p name) regional_patterns"

definition filter_individual_countries :: "(string \<times> 'a) list \<Rightarrow> (string \<times> 'a) list" where
  "filter_individual_countries df = filter (\<lambda>(c, rest). \<not> contains_regional c) df"

subsection \<open>merge\_datasets\<close>

record mortality_cols =
  m_ISO3Code :: "string option"
  m_Mortality_Status_Binary :: "string option"

record unicef_cols =
  u_ANC4 :: "rat option"
  u_SBA :: "rat option"

text \<open>\<open>left.merge(right, on='Country', how='inner')\<close>: every pair of a left row and a
  right row with the same country name, in the order of the left rows. Where names can be
  missing, pandas pairs the rows whose names are both missing.\<close>

definition merge_inner :: "('k \<times> 'a) list \<Rightarrow> ('k \<times> 'b) list \<Rightarrow> ('k \<times> 'a \<times> 'b) list" where
  "merge_inner left right =
     concat (map (\<lambda>(k, a). map (\<lambda>(k', b). (k, a, b)) (filter (\<lambda>(k', b). k' = k) right)) left)"

text \<open>The merged table has a births column only when the population join ran.\<close>

datatype merged_table =
    With_births "merged_row list"
  | Without_births "(string \<times> mortality_cols \<times> unicef_cols) list"

fun n_rows :: "merged_table \<Rightarrow> nat" where
  "n_rows (With_births rs) = length rs"
| "n_rows (Without_births rs) = length rs"

definition to_merged_row :: "string \<times> (mortality_cols \<times> unicef_cols) \<times> population_cols \<Rightarrow> merged_row" where
  "to_merged_row = (\<lambda>(c, (m, u), p).
     \<lparr> Country = c, ISO3Code = m_ISO3Code m,
       Mortality_Status_Binary = m_Mortality_Status_Binary m,
       ANC4 = u_ANC4 u, SBA = u_SBA u, Births_2022 = Births p \<rparr>)"

text \<open>The three tables after standardisation and filtering.\<close>

definition clean_table :: "(string option \<times> 'a) list \<Rightarrow> (string \<times> 'a) list" where
  "clean_table df =
     filter_individual_countries (standardize_country_names df (Some create_country_mapping))"

text \<open>The result is the lines of warning printed and the merged table.\<close>

definition merge_datasets ::
    "(string option \<times> unicef_cols) list \<Rightarrow> (string option \<times> population_cols) list
       \<Rightarrow> (string option \<times> mortality_cols) list \<Rightarrow> string list \<times> merged_table" where
  "merge_datasets unicef_data population_data mortality_data =
     (let unicef_clean = clean_table unicef_data;
          population_clean = clean_table population_data;
          mortality_clean = clean_table mortality_data;
          merged = merge_inner mortality_clean unicef_clean
      in if length population_clean > 0
         then ([], With_births (map to_merged_row (merge_inner merged population_clean)))
         else ([''Warning: No population data to merge''], Without_births merged))"

subsection \<open>Missing country names and the pandas version\<close>

text \<open>
  The repository asks for \<open>pandas>=1.3.0\<close>. Before pandas 3, \<open>astype(str)\<close> turns
  a missing cell of the country column into the text \<open>nan\<close>; from pandas 3 on the
  column takes the string dtype and the cell stays missing, through \<open>str.strip()\<close> too.
\<close>

datatype pandas_version = Pandas_before_3 | Pandas_3

fun astype_str_column :: "pandas_version \<Rightarrow> string option \<Rightarrow> string option" where
  "astype_str_column Pandas_before_3 c = Some (astype_str c)"
| "astype_str_column Pandas_3 c = c"

text \<open>The name a row without a country name carries after standardisation.\<close>

fun missing_name :: "pandas_version \<Rightarrow> string option" where
  "missing_name Pandas_before_3 = Some ''nan''"
| "missing_name Pandas_3 = None"

definition standardize_name_v ::
    "pandas_version \<Rightarrow> (string \<times> string) list \<Rightarrow> string option \<Rightarrow> string option" where
  "standardize_name_v ver mapping c =
     map_option py_strip (astype_str_column ver (replace_mapping mapping c))"

definition standardize_country_names_v ::
    "pandas_version \<Rightarrow> (string option \<times> 'a) list \<Rightarrow> (string \<times> string) list option
       \<Rightarrow> (string option \<times> 'a) list" where
  "standardize_country_names_v ver df mapping =
     (let m = (case mapping of None \<Rightarrow> create_country_mapping | Some m \<Rightarrow> m)
      in map (\<lambda>(c, rest). (standardize_name_v ver m c, rest)) df)"

text \<open>\<open>str.contains(..., na=False)\<close> is false on a missing name, so the row is kept.\<close>

definition filter_individual_countries_v :: "(string option \<times> 'a) list \<Rightarrow> (string option \<times> 'a) list" where
  "filter_individual_countries_v df =
     filter (\<lambda>(c, rest). \<not> (case c of None \<Rightarrow> False | Some name \<Rightarrow> contains_regional name)) df"

definition clean_table_v :: "pandas_version \<Rightarrow> (string option \<times> 'a) list \<Rightarrow> (string option \<times> 'a) list" where
  "clean_table_v ver df =
     filter_individual_countries_v
       (standardize_country_names_v ver df (Some create_country_mapping))"

datatype merged_table_v =
    With_births_v "(string option \<times> (mortality_cols \<times> unicef_cols) \<times> population_cols) list"
  | Without_births_v "(string option \<times> mortality_cols \<times> unicef_cols) list"

definition merge_datasets_v ::
    "pandas_version \<Rightarrow> (string option \<times> unicef_cols) list
       \<Rightarrow> (string option \<times> population_cols) list
       \<Rightarrow> (string option \<times> mortality_cols) list \<Rightarrow> string list \<times> merged_table_v" where
  "merge_datasets_v ver unicef_data population_data mortality_data =
     (let unicef_clean = clean_table_v ver unicef_data;
          population_clean = clean_table_v ver population_data;
          mortality_clean = clean_table_v ver mortality_data;
          merged = merge_inner mortality_clean unicef_clean
      in if length population_clean > 0
         then ([], With_births_v (merge_inner merged population_clean))
         else ([''Warning: No population data to merge''], Without_births_v merged))"

section \<open>Example tables\<close>

text \<open>A merged table with a shrinking country (negative births), a country without
  births, a row without status, and missing indicator cells.\<close>

definition example_merged :: "merged_row list" where
  "example_merged =
    [\<lparr> Country = ''A'', ISO3Code = Some ''AAA'', Mortality_Status_Binary = Some ''on-track'',
       ANC4 = Some 80, SBA = None, Births_2022 = Some (- 5000) \<rparr>,
     \<lparr> Country = ''B'', ISO3Code = Some ''BBB'', Mortality_Status_Binary = Some ''on-track'',
       ANC4 = Some 20, SBA = Some 50, Births_2022 = Some 15000 \<rparr>,
     \<lparr> Country = ''C'', ISO3Code = Some ''CCC'', Mortality_Status_Binary = Some ''off-track'',
       ANC4 = Some 10, SBA = Some 50, Births_2022 = Some 0 \<rparr>,
     \<lparr> Country = ''D'', ISO3Code = None, Mortality_Status_Binary = None,
       ANC4 = Some 10, SBA = None, Births_2022 = None \<rparr>]"

text \<open>A single on-track country whose births are zero.\<close>

definition zero_births_table :: "merged_row list" where
  "zero_births_table =
    [\<lparr> Country = ''Z'', ISO3Code = Some ''ZZZ'', Mortality_Status_Binary = Some ''on-track'',
       ANC4 = Some 50, SBA = Some 60, Births_2022 = Some 0 \<rparr>]"

text \<open>A single on-track country whose ANC4 value is the float64 nearest to 30.1 and
  whose births are 12.\<close>

definition one_country_table :: "merged_row list" where
  "one_country_table =
    [\<lparr> Country = ''E'', ISO3Code = Some ''EEE'', Mortality_Status_Binary = Some ''on-track'',
       ANC4 = Some (4236198399495373 / 140737488355328), SBA = None,
       Births_2022 = Some 12 \<rparr>]"

text \<open>Three cleaned source tables that share Chad and a row without a country name.\<close>

definition example_mortality :: "(string option \<times> mortality_cols) list" where
  "example_mortality =
    [(Some ''Chad'', \<lparr> m_ISO3Code = Some ''TCD'', m_Mortality_Status_Binary = Some ''off-track'' \<rparr>),
     (Some ''Peru'', \<lparr> m_ISO3Code = Some ''PER'', m_Mortality_Status_Binary = Some ''on-track'' \<rparr>),
     (None, \<lparr> m_ISO3Code = None, m_Mortality_Status_Binary = None \<rparr>)]"

definition example_unicef :: "(string option \<times> unicef_cols) list" where
  "example_unicef =
    [(Some ''Chad'', \<lparr> u_ANC4 = Some 31, u_SBA = Some 47 \<rparr>),
     (Some ''Peru'', \<lparr> u_ANC4 = Some 90, u_SBA = None \<rparr>),
     (None, \<lparr> u_ANC4 = None, u_SBA = Some 12 \<rparr>)]"

definition example_population :: "(string option \<times> population_cols) list" where
  "example_population =
    [(Some ''Chad'', \<lparr> Births = Some 700 \<rparr>),
     (None, \<lparr> Births = Some 5 \<rparr>)]"

text \<open>Tables whose raw names differ but are mapped to the same canonical name.\<close>

definition renamed_mortality :: "(string option \<times> mortality_cols) list" where
  "renamed_mortality =
    [(Some ''Burma'', \<lparr> m_ISO3Code = Some ''MMR'', m_Mortality_Status_Binary = Some ''off-track'' \<rparr>),
     (Some ''Myanmar'', \<lparr> m_ISO3Code = Some ''MMR'', m_Mortality_Status_Binary = Some ''on-track'' \<rparr>)]"

definition renamed_unicef :: "(string option \<times> unicef_cols) list" where
  "renamed_unicef =
    [(Some ''Burma'', \<lparr> u_ANC4 = Some 59, u_SBA = None \<rparr>),
     (Some ''Myanmar'', \<lparr> u_ANC4 = None, u_SBA = Some 60 \<rparr>)]"

definition renamed_population :: "(string option \<times> population_cols) list" where
  "renamed_population = [(Some ''Myanmar'', \<lparr> Births = Some 900 \<rparr>)]"

text \<open>A population sheet without any births column.\<close>

definition no_births_sheet :: dataframe where
  "no_births_sheet =
    \<lparr> columns = [''Index'', ''Region, subregion, country or area *'', ''Year'',
                   ''Total Population (thousands)''],
      rows = [\<lambda>col. if col = ''Year'' then Number 2022
                     else if col = ''Index'' then Number 1
                     else if col = ''Total Population (thousands)'' then Number 17723
                     else Text ''Chad''] \<rparr>"

text \<open>A population sheet with neither a births column nor a \<open>Year\<close> column.\<close>

definition no_year_sheet :: dataframe where
  "no_year_sheet =
    \<lparr> columns = [''Region, subregion, country or area *'', ''Total Population (thousands)''],
      rows = [\<lambda>col. if col = ''Total Population (thousands)'' then Number 17723
                     else Text ''Chad''] \<rparr>"








section \<open>The coverage aggregator\<close>

subsection \<open>Weighted sums\<close>

lemma map2_lower:
  "length a = length w \<Longrightarrow> \<forall>v\<in>set a. lo \<le> v \<Longrightarrow> \<forall>x\<in>set w. (0::rat) \<le> x
   \<Longrightarrow> lo * sum_list w \<le> sum_list (map2 (*) a w)"
proof (induction a w rule: list_induct2)
  case Nil
  then show ?case by simp
next
  case (Cons x xs y ys)
  have "lo * y \<le> x * y" using Cons.prems by (simp add: mult_right_mono)
  moreover have "lo * sum_list ys \<le> sum_list (map2 (*) xs ys)" using Cons by simp
  ultimately show ?case by (simp add: distrib_left)
qed

lemma map2_upper:
  "length a = length w \<Longrightarrow> \<forall>v\<in>set a. v \<le> hi \<Longrightarrow> \<forall>x\<in>set w. (0::rat) \<le> x
   \<Longrightarrow> sum_list (map2 (*) a w) \<le> hi * sum_list w"
proof (induction a w rule: list_induct2)
  case Nil
  then show ?case by simp
next
  case (Cons x xs y ys)
  have "x * y \<le> hi * y" using Cons.prems by (simp add: mult_right_mono)
  moreover have "sum_list (map2 (*) xs ys) \<le> hi * sum_list ys" using Cons by simp
  ultimately show ?case by (simp add: distrib_left)
qed

lemma series_min_Min: "xs \<noteq> [] \<Longrightarrow> series_min xs = Some (Min (set xs))"
  by (cases xs) (simp_all add: Min.set_eq_fold del: set_simps)

lemma series_max_Max: "xs \<noteq> [] \<Longrightarrow> series_max xs = Some (Max (set xs))"
  by (cases xs) (simp_all add: Max.set_eq_fold del: set_simps)

text \<open>The summary of a group that is not empty and whose absolute weights do not sum
  to zero.\<close>

lemma calc_nonempty:
  assumes "subset_of df ind ts \<noteq> []"
    and "sum_list (map abs (weights_of (subset_of df ind ts))) \<noteq> 0"
  shows "calculate_population_weighted_coverage df ind ts =
     Inr \<lparr> track_status = ts, s_indicator = ind,
           n_countries = length (subset_of df ind ts),
           total_births = Some (sum_list (weights_of (subset_of df ind ts))),
           weighted_coverage = Some (sum_list (map2 (*) (coverage_values_of ind (subset_of df ind ts))
                (map abs (weights_of (subset_of df ind ts))))
                 / sum_list (map abs (weights_of (subset_of df ind ts)))),
           min_coverage = series_min (coverage_values_of ind (subset_of df ind ts)),
           max_coverage = series_max (coverage_values_of ind (subset_of df ind ts)),
           median_coverage = series_median (coverage_values_of ind (subset_of df ind ts)),
           countries = map Country (subset_of df ind ts) \<rparr>"
  using assms by (simp add: calculate_population_weighted_coverage_def np_average_def Let_def)

lemma map2_as_rows:
  "sum_list (map2 (*) (coverage_values_of ind rs) (map abs (weights_of rs)))
   = (\<Sum>r\<leftarrow>rs. the (indicator_col ind r) * \<bar>the (Births_2022 r)\<bar>)"
  by (induction rs) (simp_all add: coverage_values_of_def weights_of_def)

lemma example_on_track_anc4:
  "subset_of example_merged Ind_ANC4 ''on-track'' = take 2 example_merged"
  by (simp add: subset_of_def example_merged_def)

lemma example_off_track_anc4:
  "subset_of example_merged Ind_ANC4 ''off-track'' = [example_merged ! 2]"
  by (simp add: subset_of_def example_merged_def)

lemma example_no_group:
  "subset_of example_merged Ind_SBA ''gap_analysis'' = []"
  by (simp add: subset_of_def example_merged_def)

subsection \<open>The weighted average and the total of births\<close>

text \<open>
  C1, as the code has it. For a group that is not empty and whose absolute births do not
  sum to zero, the summary is returned with
  \<open>weighted_coverage = \<Sum>(value * |births|) / \<Sum>|births|\<close> and
  \<open>total_births = \<Sum> births\<close>, the signed sum.
\<close>

theorem weighted_coverage_formula:
  assumes "subset_of df ind ts \<noteq> []"
    and "(\<Sum>r\<leftarrow>subset_of df ind ts. \<bar>the (Births_2022 r)\<bar>) \<noteq> 0"
  shows "\<exists>s. calculate_population_weighted_coverage df ind ts = Inr s
     \<and> weighted_coverage s =
         Some ((\<Sum>r\<leftarrow>subset_of df ind ts. the (indicator_col ind r) * \<bar>the (Births_2022 r)\<bar>)
               / (\<Sum>r\<leftarrow>subset_of df ind ts. \<bar>the (Births_2022 r)\<bar>))
     \<and> total_births s = Some (\<Sum>r\<leftarrow>subset_of df ind ts. the (Births_2022 r))"
proof -
  have w: "map abs (weights_of rs) = map (\<lambda>r. \<bar>the (Births_2022 r)\<bar>) rs" for rs
    by (simp add: weights_of_def)
  have nz: "sum_list (map abs (weights_of (subset_of df ind ts))) \<noteq> 0"
    using assms(2) by (simp add: w)
  show ?thesis
    using calc_nonempty [OF assms(1) nz]
    by (simp add: map2_as_rows) (simp add: weights_of_def o_def)
qed

text \<open>
  The on-track ANC4 group of the example: country A with births -5000 weighs 5000 in
  the average, (80 * 5000 + 20 * 15000) / 20000 = 35, and counts -5000 in the total,
  -5000 + 15000 = 10000.
\<close>

theorem weighted_coverage_formula_witness:
  "subset_of example_merged Ind_ANC4 ''on-track'' \<noteq> []
   \<and> (\<Sum>r\<leftarrow>subset_of example_merged Ind_ANC4 ''on-track''. \<bar>the (Births_2022 r)\<bar>) = 20000
   \<and> (\<exists>s. calculate_population_weighted_coverage example_merged Ind_ANC4 ''on-track'' = Inr s
        \<and> weighted_coverage s = Some 35 \<and> total_births s = Some 10000)"
proof -
  note sub = example_on_track_anc4
  have a: "subset_of example_merged Ind_ANC4 ''on-track'' \<noteq> []"
    by (simp add: sub) (simp add: example_merged_def)
  have b: "(\<Sum>r\<leftarrow>subset_of example_merged Ind_ANC4 ''on-track''. \<bar>the (Births_2022 r)\<bar>) = 20000"
    by (simp add: sub) (simp add: example_merged_def)
  have c: "(\<Sum>r\<leftarrow>subset_of example_merged Ind_ANC4 ''on-track''. \<bar>the (Births_2022 r)\<bar>) \<noteq> 0"
    by (simp add: b)
  show ?thesis
    using weighted_coverage_formula [OF a c] a b by (simp add: sub) (simp add: example_merged_def)
qed

text \<open>
  C1 as stated fails where the group is not empty and all its births are zero: no summary
  is returned, \<open>np.average\<close> raises ZeroDivisionError.
\<close>

theorem weighted_coverage_zero_weights_counterexample:
  "subset_of zero_births_table Ind_ANC4 ''on-track'' = zero_births_table
   \<and> zero_births_table \<noteq> []
   \<and> calculate_population_weighted_coverage zero_births_table Ind_ANC4 ''on-track''
       = Inl ZeroDivisionError"
  by (simp add: subset_of_def zero_births_table_def calculate_population_weighted_coverage_def
      np_average_def weights_of_def coverage_values_of_def)

subsection \<open>Groups whose weights are all zero\<close>

text \<open>
  C3. The off-track ANC4 group of the example holds one country, C, with births 0. The
  group is not empty, its absolute weights sum to zero, and the call ends in
  ZeroDivisionError: there is no guard between the emptiness test and \<open>np.average\<close>.
\<close>

theorem zero_weight_group_raises:
  "subset_of example_merged Ind_ANC4 ''off-track'' \<noteq> []
   \<and> sum_list (map abs (weights_of (subset_of example_merged Ind_ANC4 ''off-track''))) = 0
   \<and> calculate_population_weighted_coverage example_merged Ind_ANC4 ''off-track''
       = Inl ZeroDivisionError"
  by (simp add: example_off_track_anc4 calculate_population_weighted_coverage_def
      np_average_def weights_of_def coverage_values_of_def)
     (simp add: example_merged_def)

subsection \<open>The empty group\<close>

text \<open>
  C4, as the code has it. When the filtered subset is empty the summary has
  \<open>n_countries = 0\<close>, no countries, \<open>total_births = 0\<close>, and NaN for the weighted
  coverage, the minimum, the maximum and the median.
\<close>

theorem empty_group_summary:
  "subset_of df ind ts = [] \<Longrightarrow>
   calculate_population_weighted_coverage df ind ts =
     Inr \<lparr> track_status = ts, s_indicator = ind, n_countries = 0,
           total_births = Some 0, weighted_coverage = None,
           min_coverage = None, max_coverage = None, median_coverage = None,
           countries = [] \<rparr>"
  by (simp add: calculate_population_weighted_coverage_def)

theorem empty_group_summary_witness:
  "subset_of example_merged Ind_SBA ''gap_analysis'' = [] \<and>
   calculate_population_weighted_coverage example_merged Ind_SBA ''gap_analysis'' =
     Inr \<lparr> track_status = ''gap_analysis'', s_indicator = Ind_SBA, n_countries = 0,
           total_births = Some 0, weighted_coverage = None,
           min_coverage = None, max_coverage = None, median_coverage = None,
           countries = [] \<rparr>"
  using empty_group_summary [of example_merged Ind_SBA "''gap_analysis''"] example_no_group
  by simp

text \<open>C4 as stated fails on the empty table: \<open>total_births\<close> is the number 0, not NaN.\<close>

theorem empty_group_total_births_counterexample:
  "subset_of [] Ind_SBA ''off-track'' = []
   \<and> map_sum id total_births
        (calculate_population_weighted_coverage [] Ind_SBA ''off-track'') = Inr (Some 0)
   \<and> Some (0::rat) \<noteq> None"
  by (simp add: calculate_population_weighted_coverage_def subset_of_def)

subsection \<open>The weighted average lies between the extremes\<close>

text \<open>
  C9, as the code has it. For a group that is not empty and whose absolute weights have a
  positive sum, the value of the formula \<open>\<Sum>(value * |births|) / \<Sum>|births|\<close> in exact
  arithmetic lies between the minimum and the maximum of the group's indicator values,
  which are the \<open>min_coverage\<close> and \<open>max_coverage\<close> of the summary.
\<close>

theorem weighted_coverage_within_range:
  assumes ne: "subset_of df ind ts \<noteq> []"
    and pos: "0 < sum_list (map abs (weights_of (subset_of df ind ts)))"
  shows "\<exists>s wc lo hi. calculate_population_weighted_coverage df ind ts = Inr s
      \<and> weighted_coverage s = Some wc
      \<and> min_coverage s = Some lo \<and> lo = Min (set (coverage_values_of ind (subset_of df ind ts)))
      \<and> max_coverage s = Some hi \<and> hi = Max (set (coverage_values_of ind (subset_of df ind ts)))
      \<and> lo \<le> wc \<and> wc \<le> hi"
proof -
  define vs where "vs = coverage_values_of ind (subset_of df ind ts)"
  define ws where "ws = map abs (weights_of (subset_of df ind ts))"
  have len: "length vs = length ws"
    by (simp add: vs_def ws_def coverage_values_of_def weights_of_def)
  have vne: "vs \<noteq> []" using ne by (simp add: vs_def coverage_values_of_def)
  have wnn: "\<forall>x\<in>set ws. 0 \<le> x" by (auto simp: ws_def)
  have fin: "finite (set vs)" "set vs \<noteq> {}" using vne by simp_all
  have lo: "\<forall>v\<in>set vs. Min (set vs) \<le> v" using fin by simp
  have hi: "\<forall>v\<in>set vs. v \<le> Max (set vs)" using fin by simp
  have spos: "0 < sum_list ws" using pos by (simp add: ws_def)
  have "Min (set vs) * sum_list ws \<le> sum_list (map2 (*) vs ws)"
    by (rule map2_lower [OF len lo wnn])
  then have b1: "Min (set vs) \<le> sum_list (map2 (*) vs ws) / sum_list ws"
    using spos by (simp add: pos_le_divide_eq)
  have "sum_list (map2 (*) vs ws) \<le> Max (set vs) * sum_list ws"
    by (rule map2_upper [OF len hi wnn])
  then have b2: "sum_list (map2 (*) vs ws) / sum_list ws \<le> Max (set vs)"
    using spos by (simp add: pos_divide_le_eq)
  have nz: "sum_list (map abs (weights_of (subset_of df ind ts))) \<noteq> 0" using pos by simp
  show ?thesis
    using calc_nonempty [OF ne nz] b1 b2 series_min_Min [OF vne] series_max_Max [OF vne]
    by (simp add: vs_def ws_def)
qed

text \<open>The on-track ANC4 group of the example: 20 \<open>\<le>\<close> 35 \<open>\<le>\<close> 80.\<close>

theorem weighted_coverage_within_range_witness:
  "subset_of example_merged Ind_ANC4 ''on-track'' \<noteq> []
   \<and> 0 < sum_list (map abs (weights_of (subset_of example_merged Ind_ANC4 ''on-track'')))
   \<and> (\<exists>s. calculate_population_weighted_coverage example_merged Ind_ANC4 ''on-track'' = Inr s
        \<and> weighted_coverage s = Some 35 \<and> min_coverage s = Some 20 \<and> max_coverage s = Some 80
        \<and> (20::rat) \<le> 35 \<and> (35::rat) \<le> 80)"
proof -
  note sub = example_on_track_anc4
  have a: "subset_of example_merged Ind_ANC4 ''on-track'' \<noteq> []"
    by (simp add: sub) (simp add: example_merged_def)
  have b: "0 < sum_list (map abs (weights_of (subset_of example_merged Ind_ANC4 ''on-track'')))"
    by (simp add: sub weights_of_def) (simp add: example_merged_def)
  have c: "calculate_population_weighted_coverage example_merged Ind_ANC4 ''on-track'' =
     Inr \<lparr> track_status = ''on-track'', s_indicator = Ind_ANC4, n_countries = 2,
           total_births = Some 10000, weighted_coverage = Some 35,
           min_coverage = Some 20, max_coverage = Some 80, median_coverage = Some 50,
           countries = [''A'', ''B''] \<rparr>"
    by (simp add: calculate_population_weighted_coverage_def sub np_average_def weights_of_def
        coverage_values_of_def series_median_def Let_def)
       (simp add: example_merged_def)
  show ?thesis
    using weighted_coverage_within_range [OF a b] a b by (simp add: c)
qed

text \<open>
  C9 as stated fails in float64. In the one-country group the value is the float64 nearest
  to 30.1, which is also the minimum and the maximum; the rounded product with 12 divided
  by 12 rounds to the next float64 above it, 30.100000000000005.
\<close>

lemma floor_numeral_div_rat:
  "\<lfloor>numeral a / numeral b :: rat\<rfloor> = numeral a div numeral b"
  using floor_divide_of_int_eq [of "numeral a" "numeral b", where ?'a = rat] by simp

lemmas f64_eval = f64_round_def f64_scale.simps round_half_even_def Let_def floor_numeral_div_rat

lemma f64_nearest_30_1: "f64_round (301 / 10) = 4236198399495373 / 140737488355328"
  by (simp add: f64_eval)

lemma f64_product_12:
  "f64_round (4236198399495373 / 140737488355328 * 12) = 1588574399810765 / 4398046511104"
  by (simp add: f64_eval)

lemma f64_quotient_12:
  "f64_round (1588574399810765 / 4398046511104 / 12) = 8472396798990747 / 281474976710656"
  by (simp add: f64_eval)

theorem weighted_coverage_float64_counterexample:
  "f64_round (301 / 10) = 4236198399495373 / 140737488355328
   \<and> subset_of one_country_table Ind_ANC4 ''on-track'' = one_country_table
   \<and> coverage_values_of Ind_ANC4 one_country_table = [4236198399495373 / 140737488355328]
   \<and> map abs (weights_of one_country_table) = [12]
   \<and> series_max [4236198399495373 / 140737488355328] = Some (4236198399495373 / 140737488355328)
   \<and> np_average_one_row_f64 (4236198399495373 / 140737488355328) 12
        = Inr (8472396798990747 / 281474976710656)
   \<and> (4236198399495373 / 140737488355328 :: rat) < 8472396798990747 / 281474976710656"
proof -
  have a: "np_average_one_row_f64 (4236198399495373 / 140737488355328) 12
        = Inr (8472396798990747 / 281474976710656)"
    by (simp only: np_average_one_row_f64_def f64_product_12 f64_quotient_12) simp
  have b: "subset_of one_country_table Ind_ANC4 ''on-track'' = one_country_table"
    by (simp add: subset_of_def one_country_table_def del: not_None_eq)
  have c: "coverage_values_of Ind_ANC4 one_country_table = [4236198399495373 / 140737488355328]"
    "map abs (weights_of one_country_table) = [12]"
    by (simp_all add: coverage_values_of_def weights_of_def one_country_table_def)
  show ?thesis using a b c f64_nearest_30_1 by simp
qed

section \<open>Strings\<close>

text \<open>Lower-casing, read off the eight bits of a character (least significant first).\<close>

lemma py_lower_char_bits:
  "py_lower_char (Char b0 b1 b2 b3 b4 b5 b6 b7) =
     (if b6 \<and> \<not> b5 \<and>
         ((\<not> b7 \<and> (b0 \<or> b1 \<or> b2 \<or> b3 \<or> b4) \<and> \<not> (b4 \<and> b3 \<and> (b2 \<or> (b1 \<and> b0))))
          \<or> (b7 \<and> \<not> (b4 \<and> b2 \<and> b1 \<and> b0)))
      then Char b0 b1 b2 b3 b4 True b6 b7
      else Char b0 b1 b2 b3 b4 b5 b6 b7)"
  by (cases b0; cases b1; cases b2; cases b3; cases b4; cases b5; cases b6; cases b7;
      simp add: py_lower_char_def char_of_eq_iff)

text \<open>A text without surrounding whitespace is left alone by \<open>strip\<close>, and the result
  of \<open>strip\<close> is such a text.\<close>

lemma strip_fix:
  assumes "s = [] \<or> (\<not> py_isspace (hd s) \<and> \<not> py_isspace (last s))"
  shows "py_strip s = s"
proof (cases s rule: rev_cases)
  case Nil then show ?thesis by (simp add: py_strip_def)
next
  case (snoc ys y)
  with assms have h: "\<not> py_isspace (hd s)" and l: "\<not> py_isspace y" by auto
  from h have "dropWhile py_isspace s = s" by (simp add: dropWhile_eq_self_iff)
  with snoc l show ?thesis by (simp add: py_strip_def)
qed

lemma strip_shape:
  "py_strip s = [] \<or> (\<not> py_isspace (hd (py_strip s)) \<and> \<not> py_isspace (last (py_strip s)))"
proof -
  define t where "t = dropWhile py_isspace s"
  define u where "u = dropWhile py_isspace (rev t)"
  have ps: "py_strip s = rev u" by (simp add: py_strip_def t_def u_def)
  show ?thesis
  proof (cases "u = []")
    case True then show ?thesis by (simp add: ps)
  next
    case False
    then have hu: "\<not> py_isspace (hd u)" unfolding u_def by (simp add: hd_dropWhile)
    have "rev t = takeWhile py_isspace (rev t) @ u" unfolding u_def by simp
    then have "t = rev u @ rev (takeWhile py_isspace (rev t))"
      by (metis rev_append rev_rev_ident)
    moreover have "rev u \<noteq> []" using False by simp
    ultimately have "hd t = hd (rev u)" by (metis hd_append2)
    moreover have "t \<noteq> []" using False u_def by auto
    then have "\<not> py_isspace (hd t)" unfolding t_def by (simp add: hd_dropWhile)
    ultimately have "\<not> py_isspace (hd (rev u))" by simp
    moreover have "last (rev u) = hd u" using False by (simp add: last_rev)
    ultimately show ?thesis using hu by (simp add: ps)
  qed
qed

lemma strip_idem: "py_strip (py_strip s) = py_strip s"
  using strip_shape [of s] by (rule strip_fix)

section \<open>The mortality classifier\<close>

text \<open>
  C7. A missing status gives a missing label. A status whose lower-cased text is
  \<open>achieved\<close> or \<open>on-track\<close> gives \<open>on-track\<close>; every other text gives
  \<open>off-track\<close>, among them "acceleration needed" and "Some Other Category".
\<close>

theorem classify_status_cases:
  "classify_status None = None
   \<and> classify_status (Some s) =
       Some (if py_lower s = ''achieved'' \<or> py_lower s = ''on-track''
             then ''on-track'' else ''off-track'')
   \<and> classify_status (Some ''Acceleration Needed'') = Some ''off-track''
   \<and> classify_status (Some ''Some Other Category'') = Some ''off-track''"
  by (simp add: classify_status_def Let_def py_lower_def py_lower_char_bits)

theorem classify_status_cases_witness:
  "classify_status (Some ''ACHIEVED'') = Some ''on-track''
   \<and> classify_status (Some ''On-Track'') = Some ''on-track''
   \<and> classify_status (Some ''on track'') = Some ''off-track''"
  using classify_status_cases [of "''ACHIEVED''"] classify_status_cases [of "''On-Track''"]
    classify_status_cases [of "''on track''"]
  by (simp add: py_lower_def py_lower_char_bits)

section \<open>Country name normalisation\<close>

text \<open>Every target of the shipped table is trimmed, and is either no key or a key mapped
  to itself.\<close>

lemma mapping_targets_fixed:
  "list_all (\<lambda>(k, t). map_of create_country_mapping t = None
                      \<or> map_of create_country_mapping t = Some t) create_country_mapping"
  by code_simp

lemma mapping_targets_trimmed:
  "list_all (\<lambda>(k, t). \<not> py_isspace (hd t) \<and> \<not> py_isspace (last t)) create_country_mapping"
  by code_simp

lemma mapped_name_stable:
  assumes "map_of create_country_mapping x = Some t"
  shows "py_strip t = t"
    and "map_of create_country_mapping t = None \<or> map_of create_country_mapping t = Some t"
proof -
  from assms have mem: "(x, t) \<in> set create_country_mapping" by (rule map_of_SomeD)
  from mapping_targets_trimmed mem
  have "\<not> py_isspace (hd t) \<and> \<not> py_isspace (last t)"
    by (auto simp: list_all_iff)
  then show "py_strip t = t" by (simp add: strip_fix)
  from mapping_targets_fixed mem
  show "map_of create_country_mapping t = None \<or> map_of create_country_mapping t = Some t"
    by (auto simp: list_all_iff)
qed

lemma normalize_twice:
  "(standardize_name create_country_mapping (Some (standardize_name create_country_mapping (Some x)))
      = standardize_name create_country_mapping (Some x))
   = (map_of create_country_mapping x \<noteq> None
      \<or> map_of create_country_mapping (py_strip x) = None
      \<or> map_of create_country_mapping (py_strip x) = Some (py_strip x))"
proof (cases "map_of create_country_mapping x")
  case (Some t)
  have n1: "standardize_name create_country_mapping (Some x) = t"
    using Some mapped_name_stable(1) [OF Some] by (simp add: standardize_name_def replace_mapping_def)
  have "standardize_name create_country_mapping (Some t) = t"
    using mapped_name_stable [OF Some]
    by (auto simp: standardize_name_def replace_mapping_def)
  then show ?thesis using Some n1 by simp
next
  case None
  have n1: "standardize_name create_country_mapping (Some x) = py_strip x"
    using None by (simp add: standardize_name_def replace_mapping_def)
  show ?thesis
  proof (cases "map_of create_country_mapping (py_strip x)")
    case None
    then show ?thesis
      by (simp add: n1) (simp add: standardize_name_def replace_mapping_def strip_idem)
  next
    case (Some t)
    have "standardize_name create_country_mapping (Some (py_strip x)) = t"
      using Some mapped_name_stable(1) [OF Some]
      by (simp add: standardize_name_def replace_mapping_def)
    then show ?thesis using Some \<open>map_of create_country_mapping x = None\<close>
      by (auto simp: n1)
  qed
qed

text \<open>
  C5, as the code has it. With the shipped mapping, normalising twice gives the same as
  normalising once exactly for the names that are keys of the mapping or whose trimmed
  form is not a key the mapping renames; this covers every name without surrounding
  whitespace.
\<close>

theorem normalize_idempotent_iff:
  "((standardize_name create_country_mapping
        (Some (standardize_name create_country_mapping (Some x)))
      = standardize_name create_country_mapping (Some x))
    \<longleftrightarrow> (map_of create_country_mapping x \<noteq> None
       \<or> map_of create_country_mapping (py_strip x) = None
       \<or> map_of create_country_mapping (py_strip x) = Some (py_strip x)))
   \<and> (py_strip x = x \<longrightarrow>
        standardize_name create_country_mapping
          (Some (standardize_name create_country_mapping (Some x)))
        = standardize_name create_country_mapping (Some x))"
proof -
  have "py_strip x = x \<Longrightarrow> map_of create_country_mapping x \<noteq> None
      \<or> map_of create_country_mapping (py_strip x) = None
      \<or> map_of create_country_mapping (py_strip x) = Some (py_strip x)"
    by auto
  then show ?thesis using normalize_twice [of x] by blast
qed

theorem normalize_idempotent_iff_witness:
  "map_of create_country_mapping ''Burma'' \<noteq> None
   \<and> py_strip ''Burma'' = ''Burma''
   \<and> standardize_name create_country_mapping (Some ''Burma'') = ''Myanmar''
   \<and> standardize_name create_country_mapping (Some ''Myanmar'') = ''Myanmar''"
proof -
  have k: "map_of create_country_mapping ''Burma'' \<noteq> None" by code_simp
  have s: "py_strip ''Burma'' = ''Burma''" by (simp add: py_strip_def py_isspace_def)
  have n: "standardize_name create_country_mapping (Some ''Burma'') = ''Myanmar''" by code_simp
  show ?thesis using normalize_idempotent_iff [of "''Burma''"] k s n by simp
qed

text \<open>
  C5 as stated fails on a renamed key with surrounding whitespace: \<open>' USA'\<close> is no key,
  so the first pass only trims it to \<open>'USA'\<close>, and the second pass renames that.
\<close>

theorem normalize_padded_key_counterexample:
  "standardize_name create_country_mapping (Some '' USA'') = ''USA''
   \<and> standardize_name create_country_mapping
         (Some (standardize_name create_country_mapping (Some '' USA''))) = ''United States''
   \<and> standardize_name create_country_mapping
         (Some (standardize_name create_country_mapping (Some '' USA'')))
       \<noteq> standardize_name create_country_mapping (Some '' USA'')"
  by code_simp

section \<open>The merge\<close>

subsection \<open>Inner joins\<close>

lemma filter_disj_length:
  "\<forall>x\<in>set xs. \<not> (P x \<and> Q x) \<Longrightarrow>
   length (filter P xs) + length (filter Q xs) = length (filter (\<lambda>x. P x \<or> Q x) xs)"
  by (induction xs) auto

lemma merge_inner_Nil [simp]: "merge_inner [] right = []"
  by (simp add: merge_inner_def)

lemma merge_inner_Cons:
  "merge_inner ((k, a) # left) right =
     map (\<lambda>(k', b). (k, a, b)) (filter (\<lambda>(k', b). k' = k) right) @ merge_inner left right"
  by (simp add: merge_inner_def)

lemma length_merge_inner_right:
  "distinct (map fst left) \<Longrightarrow>
   length (merge_inner left right) \<le> length (filter (\<lambda>(k', b). k' \<in> fst ` set left) right)"
proof (induction left)
  case Nil
  then show ?case by simp
next
  case (Cons x left)
  obtain k a where x: "x = (k, a)" by (cases x)
  have disj: "\<forall>y\<in>set right. \<not> ((case y of (k', b) \<Rightarrow> k' = k) \<and> (case y of (k', b) \<Rightarrow> k' \<in> fst ` set left))"
    using Cons.prems x by auto
  have "length (merge_inner (x # left) right)
        = length (filter (\<lambda>(k', b). k' = k) right) + length (merge_inner left right)"
    by (simp add: x merge_inner_Cons)
  also have "\<dots> \<le> length (filter (\<lambda>(k', b). k' = k) right)
                 + length (filter (\<lambda>(k', b). k' \<in> fst ` set left) right)"
    using Cons by simp
  also have "\<dots> = length (filter (\<lambda>y. (case y of (k', b) \<Rightarrow> k' = k) \<or> (case y of (k', b) \<Rightarrow> k' \<in> fst ` set left)) right)"
    by (rule filter_disj_length [OF disj])
  also have "\<dots> = length (filter (\<lambda>(k', b). k' \<in> fst ` set (x # left)) right)"
    by (rule arg_cong [where f = length], rule filter_cong) (auto simp: x)
  finally show ?case .
qed

lemma matches_distinct:
  "distinct (map fst right) \<Longrightarrow>
   map fst (filter (\<lambda>(k', b). k' = k) right) = (if k \<in> fst ` set right then [k] else [])"
proof (induction right)
  case Nil
  then show ?case by simp
next
  case (Cons y right)
  then show ?case by (cases y) (auto simp: image_iff)
qed

lemma keys_merge_inner:
  "distinct (map fst right) \<Longrightarrow>
   map fst (merge_inner left right) = filter (\<lambda>k. k \<in> fst ` set right) (map fst left)"
proof (induction left)
  case Nil
  then show ?case by simp
next
  case (Cons x left)
  obtain k a where x: "x = (k, a)" by (cases x)
  have "map fst (map (\<lambda>(k', b). (k, a, b)) (filter (\<lambda>(k', b). k' = k) right))
        = map fst (filter (\<lambda>(k', b). k' = k) right)"
    by (induction right) auto
  then show ?case using Cons matches_distinct [OF Cons.prems, of k]
    by (simp add: x merge_inner_Cons)
qed

lemma length_merge_inner:
  assumes "distinct (map fst left)" and "distinct (map fst right)"
  shows "length (merge_inner left right) \<le> min (length left) (length right)"
proof -
  have "length (merge_inner left right) = length (map fst (merge_inner left right))" by simp
  also have "\<dots> \<le> length left"
    unfolding keys_merge_inner [OF assms(2)]
    by (metis length_filter_le length_map)
  finally have l: "length (merge_inner left right) \<le> length left" .
  have "length (merge_inner left right) \<le> length right"
    using length_merge_inner_right [OF assms(1), of right]
    by (meson le_trans length_filter_le)
  with l show ?thesis by simp
qed

lemma distinct_merge_inner:
  assumes "distinct (map fst left)" and "distinct (map fst right)"
  shows "distinct (map fst (merge_inner left right))"
  unfolding keys_merge_inner [OF assms(2)] using assms(1) by simp

lemma set_merge_inner:
  "set (merge_inner left right) = {(k, a, b). (k, a) \<in> set left \<and> (k, b) \<in> set right}"
proof (induction left)
  case Nil
  then show ?case by (simp add: merge_inner_def)
next
  case (Cons x left)
  obtain k a where x: "x = (k, a)" by (cases x)
  have "merge_inner (x # left) right =
     map (\<lambda>(k', b). (k, a, b)) (filter (\<lambda>(k', b). k' = k) right) @ merge_inner left right"
    by (simp add: x merge_inner_def)
  moreover have "set (map (\<lambda>(k', b). (k, a, b)) (filter (\<lambda>(k', b). k' = k) right))
      = {(k', a', b). k' = k \<and> a' = a \<and> (k, b) \<in> set right}"
    by (induction right) auto
  ultimately show ?case using Cons by (auto simp: x)
qed

subsection \<open>The example tables, cleaned\<close>

lemmas eval_defs = clean_table_def standardize_country_names_def filter_individual_countries_def
  standardize_name_def replace_mapping_def create_country_mapping_def py_strip_def py_isspace_def
  contains_regional_def regional_patterns_def lits_def py_lower_char_bits

lemma clean_example_mortality:
  "clean_table example_mortality =
    [(''Chad'', \<lparr> m_ISO3Code = Some ''TCD'', m_Mortality_Status_Binary = Some ''off-track'' \<rparr>),
     (''Peru'', \<lparr> m_ISO3Code = Some ''PER'', m_Mortality_Status_Binary = Some ''on-track'' \<rparr>),
     (''nan'', \<lparr> m_ISO3Code = None, m_Mortality_Status_Binary = None \<rparr>)]"
  by (simp add: example_mortality_def eval_defs)

lemma clean_example_unicef:
  "clean_table example_unicef =
    [(''Chad'', \<lparr> u_ANC4 = Some 31, u_SBA = Some 47 \<rparr>),
     (''Peru'', \<lparr> u_ANC4 = Some 90, u_SBA = None \<rparr>),
     (''nan'', \<lparr> u_ANC4 = None, u_SBA = Some 12 \<rparr>)]"
  by (simp add: example_unicef_def eval_defs)

lemma clean_example_population:
  "clean_table example_population =
    [(''Chad'', \<lparr> Births = Some 700 \<rparr>), (''nan'', \<lparr> Births = Some 5 \<rparr>)]"
  by (simp add: example_population_def eval_defs)

lemma clean_renamed_mortality:
  "clean_table renamed_mortality =
    [(''Myanmar'', \<lparr> m_ISO3Code = Some ''MMR'', m_Mortality_Status_Binary = Some ''off-track'' \<rparr>),
     (''Myanmar'', \<lparr> m_ISO3Code = Some ''MMR'', m_Mortality_Status_Binary = Some ''on-track'' \<rparr>)]"
  by (simp add: renamed_mortality_def eval_defs)

lemma clean_renamed_unicef:
  "clean_table renamed_unicef =
    [(''Myanmar'', \<lparr> u_ANC4 = Some 59, u_SBA = None \<rparr>),
     (''Myanmar'', \<lparr> u_ANC4 = None, u_SBA = Some 60 \<rparr>)]"
  by (simp add: renamed_unicef_def eval_defs)

lemma clean_renamed_population:
  "clean_table renamed_population = [(''Myanmar'', \<lparr> Births = Some 900 \<rparr>)]"
  by (simp add: renamed_population_def eval_defs)

lemma n_rows_merge_datasets:
  "n_rows (snd (merge_datasets unicef_data population_data mortality_data))
     = (if clean_table population_data \<noteq> []
        then length (merge_inner (merge_inner (clean_table mortality_data) (clean_table unicef_data))
                       (clean_table population_data))
        else length (merge_inner (clean_table mortality_data) (clean_table unicef_data)))"
  by (simp add: merge_datasets_def Let_def)

subsection \<open>Row counts\<close>

text \<open>
  C2, as the code has it. When the country names within each table are pairwise distinct,
  an inner join has at most min(|A|, |B|) rows; for the three cleaned tables the merged
  table then has at most min(|mortality|, |health|) rows, and at most the minimum of all
  three sizes when the cleaned population table is not empty, which is when the population
  join runs.
\<close>

theorem merge_row_count_distinct:
  assumes dA: "distinct (map fst A)" and dB: "distinct (map fst B)"
    and dM: "distinct (map fst (clean_table mortality_data))"
    and dU: "distinct (map fst (clean_table unicef_data))"
    and dP: "distinct (map fst (clean_table population_data))"
  shows "length (merge_inner A B) \<le> min (length A) (length B)
    \<and> length (merge_inner (merge_inner (clean_table mortality_data) (clean_table unicef_data))
                (clean_table population_data))
        \<le> min (length (merge_inner (clean_table mortality_data) (clean_table unicef_data)))
              (length (clean_table population_data))
    \<and> n_rows (snd (merge_datasets unicef_data population_data mortality_data))
        \<le> min (length (clean_table mortality_data)) (length (clean_table unicef_data))
    \<and> (clean_table population_data \<noteq> [] \<longrightarrow>
        n_rows (snd (merge_datasets unicef_data population_data mortality_data))
          \<le> min (length (clean_table mortality_data))
               (min (length (clean_table unicef_data)) (length (clean_table population_data))))"
proof -
  let ?M = "clean_table mortality_data" and ?U = "clean_table unicef_data"
  let ?P = "clean_table population_data"
  have mu: "length (merge_inner ?M ?U) \<le> min (length ?M) (length ?U)"
    by (rule length_merge_inner [OF dM dU])
  have dmu: "distinct (map fst (merge_inner ?M ?U))"
    by (rule distinct_merge_inner [OF dM dU])
  have mup: "length (merge_inner (merge_inner ?M ?U) ?P) \<le> min (length (merge_inner ?M ?U)) (length ?P)"
    by (rule length_merge_inner [OF dmu dP])
  have n: "n_rows (snd (merge_datasets unicef_data population_data mortality_data))
        = (if ?P \<noteq> [] then length (merge_inner (merge_inner ?M ?U) ?P)
           else length (merge_inner ?M ?U))"
    by (simp add: merge_datasets_def Let_def)
  show ?thesis
    using length_merge_inner [OF dA dB] mu mup by (auto simp: n)
qed

theorem merge_row_count_distinct_witness:
  "distinct (map fst (clean_table example_mortality))
   \<and> distinct (map fst (clean_table example_unicef))
   \<and> distinct (map fst (clean_table example_population))
   \<and> clean_table example_population \<noteq> []
   \<and> length (clean_table example_mortality) = 3
   \<and> length (clean_table example_unicef) = 3
   \<and> length (clean_table example_population) = 2
   \<and> length (merge_inner (clean_table example_mortality) (clean_table example_unicef)) = 3
   \<and> n_rows (snd (merge_datasets example_unicef example_population example_mortality)) = 2"
proof -
  have dM: "distinct (map fst (clean_table example_mortality))"
    by (simp add: clean_example_mortality)
  have dU: "distinct (map fst (clean_table example_unicef))"
    by (simp add: clean_example_unicef)
  have dP: "distinct (map fst (clean_table example_population))"
    by (simp add: clean_example_population)
  have mu: "length (merge_inner (clean_table example_mortality) (clean_table example_unicef)) = 3"
    by (simp add: clean_example_mortality clean_example_unicef merge_inner_def)
  have n: "n_rows (snd (merge_datasets example_unicef example_population example_mortality)) = 2"
    by (simp add: n_rows_merge_datasets)
       (simp add: clean_example_mortality clean_example_unicef clean_example_population merge_inner_def)
  show ?thesis
    using merge_row_count_distinct [OF dM dU dM dU dP] dM dU dP mu n
    by (simp add: clean_example_mortality clean_example_unicef clean_example_population)
qed

text \<open>
  C2 as stated fails when names repeat. \<open>Burma\<close> and \<open>Myanmar\<close> are both mapped to
  \<open>Myanmar\<close>; two such rows on each side join to four rows, and the merged table has
  four rows where the smallest cleaned table has one. It also fails, with distinct names,
  when the population table is empty: the population join is skipped and the three rows of
  the mortality and health join are returned.
\<close>

theorem merge_row_count_counterexample:
  "length (clean_table renamed_mortality) = 2
   \<and> length (clean_table renamed_unicef) = 2
   \<and> length (clean_table renamed_population) = 1
   \<and> length (merge_inner (clean_table renamed_mortality) (clean_table renamed_unicef)) = 4
   \<and> n_rows (snd (merge_datasets renamed_unicef renamed_population renamed_mortality)) = 4
   \<and> \<not> length (merge_inner (clean_table renamed_mortality) (clean_table renamed_unicef))
          \<le> min (length (clean_table renamed_mortality)) (length (clean_table renamed_unicef))
   \<and> \<not> n_rows (snd (merge_datasets renamed_unicef renamed_population renamed_mortality))
          \<le> min (length (clean_table renamed_mortality))
               (min (length (clean_table renamed_unicef)) (length (clean_table renamed_population)))
   \<and> length (clean_table ([] :: (string option \<times> population_cols) list)) = 0
   \<and> n_rows (snd (merge_datasets example_unicef [] example_mortality)) = 3"
proof -
  have e: "clean_table ([] :: (string option \<times> population_cols) list) = []"
    by (simp add: clean_table_def standardize_country_names_def filter_individual_countries_def)
  have "n_rows (snd (merge_datasets example_unicef [] example_mortality)) = 3"
    by (simp add: n_rows_merge_datasets e)
       (simp add: clean_example_mortality clean_example_unicef merge_inner_def)
  then show ?thesis
    by (simp add: n_rows_merge_datasets e)
       (simp add: clean_renamed_mortality clean_renamed_unicef clean_renamed_population
          merge_inner_def)
qed

subsection \<open>A population source without a births column\<close>

text \<open>
  C6, as the code has it. When the sheet has a \<open>Year\<close> column and no column whose name
  contains \<open>births\<close>, \<open>birth\<close> or \<open>natality\<close>, the population cleaner prints a
  warning and returns the empty table; \<open>merge_datasets\<close> then prints a warning, skips
  the population join, and returns the join of the mortality and health tables.
\<close>

theorem no_births_column:
  assumes "''Year'' \<in> set (columns df)" and "find_births_col (columns df) = None"
  shows "clean_population_data parse num_str df
           = Inr ([''Warning: Could not find births column in population data''], [])
     \<and> merge_datasets unicef_data [] mortality_data
           = ([''Warning: No population data to merge''],
              Without_births (merge_inner (clean_table mortality_data) (clean_table unicef_data)))"
proof -
  have "clean_population_data parse num_str df
           = Inr ([''Warning: Could not find births column in population data''], [])"
  proof (cases "find_col [''country'', ''region'', ''area''] (columns df)")
    case None
    obtain c cs where "columns df = c # cs" using assms(1) by (cases "columns df") auto
    with None assms show ?thesis
      by (simp add: clean_population_data_def Let_def)
  next
    case (Some c)
    with assms show ?thesis
      by (simp add: clean_population_data_def Let_def)
  qed
  moreover have "clean_table ([] :: (string option \<times> population_cols) list) = []"
    by (simp add: clean_table_def standardize_country_names_def filter_individual_countries_def)
  ultimately show ?thesis by (simp add: merge_datasets_def Let_def)
qed

lemma no_births_found: "find_births_col (columns no_births_sheet) = None"
  by (simp add: no_births_sheet_def find_births_col_def find_col_def py_lower_def py_lower_char_bits)

theorem no_births_column_witness:
  "''Year'' \<in> set (columns no_births_sheet)
   \<and> find_births_col (columns no_births_sheet) = None
   \<and> clean_population_data (\<lambda>s. None) (\<lambda>q. []) no_births_sheet
           = Inr ([''Warning: Could not find births column in population data''], [])
   \<and> merge_datasets example_unicef [] example_mortality
           = ([''Warning: No population data to merge''],
              Without_births (merge_inner (clean_table example_mortality) (clean_table example_unicef)))"
proof -
  have y: "''Year'' \<in> set (columns no_births_sheet)" by (simp add: no_births_sheet_def)
  show ?thesis
    using no_births_column [OF y no_births_found, of "\<lambda>s. None" "\<lambda>q. []" example_unicef example_mortality]
      y no_births_found by simp
qed

text \<open>
  C6 as stated fails on the example: the cleaner returns the empty table with its warning,
  and the merged table still has the three rows of the mortality and health join. On a
  sheet that also lacks the \<open>Year\<close> column the cleaner returns nothing: reading
  \<open>df['Year']\<close> raises KeyError before the births column is looked for.
\<close>

theorem no_births_merge_counterexample:
  "clean_population_data (\<lambda>s. None) (\<lambda>q. []) no_births_sheet
     = Inr ([''Warning: Could not find births column in population data''], [])
   \<and> n_rows (snd (merge_datasets example_unicef [] example_mortality)) = 3
   \<and> n_rows (snd (merge_datasets example_unicef [] example_mortality)) \<noteq> 0
   \<and> find_births_col (columns no_year_sheet) = None
   \<and> clean_population_data (\<lambda>s. None) (\<lambda>q. []) no_year_sheet = Inl KeyError"
proof -
  have "find_col [''country'', ''region'', ''area''] (columns no_births_sheet)
          = Some ''Region, subregion, country or area *''"
    by (simp add: no_births_sheet_def find_col_def py_lower_def py_lower_char_bits)
  then have a: "clean_population_data (\<lambda>s. None) (\<lambda>q. []) no_births_sheet
     = Inr ([''Warning: Could not find births column in population data''], [])"
    using no_births_found
    by (simp add: clean_population_data_def Let_def) (simp add: no_births_sheet_def)
  have "clean_table ([] :: (string option \<times> population_cols) list) = []"
    by (simp add: clean_table_def standardize_country_names_def filter_individual_countries_def)
  then have b: "n_rows (snd (merge_datasets example_unicef [] example_mortality)) = 3"
    by (simp add: n_rows_merge_datasets)
       (simp add: clean_example_mortality clean_example_unicef merge_inner_def)
  have c: "find_births_col (columns no_year_sheet) = None"
    by (simp add: no_year_sheet_def find_births_col_def find_col_def py_lower_def
        py_lower_char_bits)
  have "find_col [''country'', ''region'', ''area''] (columns no_year_sheet)
          = Some ''Region, subregion, country or area *''"
    by (simp add: no_year_sheet_def find_col_def py_lower_def py_lower_char_bits)
  then have d: "clean_population_data (\<lambda>s. None) (\<lambda>q. []) no_year_sheet = Inl KeyError"
    by (simp add: clean_population_data_def Let_def) (simp add: no_year_sheet_def)
  from a b c d show ?thesis by simp
qed

subsection \<open>Rows without a country name\<close>

lemma nan_not_regional: "\<not> contains_regional ''nan''"
  by (simp add: contains_regional_def regional_patterns_def lits_def py_lower_char_bits)

lemma standardize_name_None: "standardize_name m None = ''nan''"
  by (simp add: standardize_name_def replace_mapping_def py_strip_def py_isspace_def)

lemma standardize_name_v_None: "standardize_name_v ver m None = missing_name ver"
  by (cases ver) (simp_all add: standardize_name_v_def replace_mapping_def py_strip_def
      py_isspace_def)

text \<open>Before pandas 3 the two descriptions of the cleaning agree.\<close>

lemma standardize_name_v_before_3:
  "standardize_name_v Pandas_before_3 m c = Some (standardize_name m c)"
  by (simp add: standardize_name_v_def standardize_name_def)

lemma clean_table_v_before_3:
  "clean_table_v Pandas_before_3 df = map (\<lambda>(c, rest). (Some c, rest)) (clean_table df)"
  by (induction df)
     (auto simp: clean_table_v_def clean_table_def standardize_country_names_v_def
        standardize_country_names_def filter_individual_countries_v_def
        filter_individual_countries_def standardize_name_v_before_3)

lemma missing_name_not_regional:
  "\<not> (case missing_name ver of None \<Rightarrow> False | Some name \<Rightarrow> contains_regional name)"
  by (cases ver) (simp_all add: nan_not_regional)

lemma null_row_cleaned:
  assumes "(None, a) \<in> set df"
  shows "(missing_name ver, a) \<in> set (clean_table_v ver df)"
proof -
  have "(standardize_name_v ver create_country_mapping None, a)
          \<in> set (standardize_country_names_v ver df (Some create_country_mapping))"
    using assms by (force simp: standardize_country_names_v_def)
  then show ?thesis
    using missing_name_not_regional [of ver]
    by (simp add: clean_table_v_def filter_individual_countries_v_def standardize_name_v_None)
qed

text \<open>
  C10, as the code has it. \<open>standardize_country_names\<close> returns a row for every row,
  with the other columns unchanged. A missing country name becomes the text \<open>nan\<close>
  before pandas 3 and stays missing from pandas 3 on; either way the row passes the
  aggregate filter and joins with the rows of the other tables that had no name.
\<close>

theorem null_country_name_flows:
  "length (standardize_country_names_v ver df mapping) = length df
   \<and> map snd (standardize_country_names_v ver df mapping) = map snd df
   \<and> standardize_country_names_v Pandas_before_3 [(None, a)] mapping = [(Some ''nan'', a)]
   \<and> standardize_country_names_v Pandas_3 [(None, a)] mapping = [(None, a)]
   \<and> ((None, a) \<in> set df \<longrightarrow> (missing_name ver, a) \<in> set (clean_table_v ver df))
   \<and> ((None, m) \<in> set mortality_data \<and> (None, u) \<in> set unicef_data
        \<and> (None, p) \<in> set population_data \<longrightarrow>
       (\<exists>rs. merge_datasets_v ver unicef_data population_data mortality_data
               = ([], With_births_v rs)
             \<and> (missing_name ver, (m, u), p) \<in> set rs))"
proof -
  have 1: "length (standardize_country_names_v ver df mapping) = length df"
    by (simp add: standardize_country_names_v_def Let_def)
  have 2: "map snd (standardize_country_names_v ver df mapping) = map snd df"
    by (simp add: standardize_country_names_v_def Let_def split_def o_def)
  have 3: "standardize_country_names_v Pandas_before_3 [(None, a)] mapping = [(Some ''nan'', a)]"
    by (simp add: standardize_country_names_v_def Let_def standardize_name_v_None)
  have 4: "standardize_country_names_v Pandas_3 [(None, a)] mapping = [(None, a)]"
    by (simp add: standardize_country_names_v_def Let_def standardize_name_v_None)
  have 5: "(None, a) \<in> set df \<longrightarrow> (missing_name ver, a) \<in> set (clean_table_v ver df)"
    by (simp add: null_row_cleaned)
  have 6: "\<exists>rs. merge_datasets_v ver unicef_data population_data mortality_data
               = ([], With_births_v rs)
             \<and> (missing_name ver, (m, u), p) \<in> set rs"
    if h: "(None, m) \<in> set mortality_data" "(None, u) \<in> set unicef_data"
          "(None, p) \<in> set population_data"
  proof -
    have p: "(missing_name ver, p) \<in> set (clean_table_v ver population_data)"
      by (rule null_row_cleaned [OF h(3)])
    then have ne: "length (clean_table_v ver population_data) > 0"
      by (auto simp: length_greater_0_conv)
    have "(missing_name ver, m, u)
            \<in> set (merge_inner (clean_table_v ver mortality_data) (clean_table_v ver unicef_data))"
      using null_row_cleaned [OF h(1)] null_row_cleaned [OF h(2)] by (simp add: set_merge_inner)
    then have "(missing_name ver, (m, u), p) \<in> set (merge_inner
        (merge_inner (clean_table_v ver mortality_data) (clean_table_v ver unicef_data))
        (clean_table_v ver population_data))"
      using p by (simp add: set_merge_inner)
    with ne show ?thesis
      by (simp add: merge_datasets_v_def Let_def)
  qed
  then have 7: "(None, m) \<in> set mortality_data \<and> (None, u) \<in> set unicef_data
        \<and> (None, p) \<in> set population_data \<longrightarrow>
       (\<exists>rs. merge_datasets_v ver unicef_data population_data mortality_data
               = ([], With_births_v rs)
             \<and> (missing_name ver, (m, u), p) \<in> set rs)"
    by (intro impI) (elim conjE)
  from 1 2 3 4 5 7 show ?thesis by (intro conjI)
qed

theorem null_country_name_flows_witness:
  "(None, \<lparr> m_ISO3Code = None, m_Mortality_Status_Binary = None \<rparr>) \<in> set example_mortality
   \<and> (None, \<lparr> u_ANC4 = None, u_SBA = Some 12 \<rparr>) \<in> set example_unicef
   \<and> (None, \<lparr> Births = Some 5 \<rparr>) \<in> set example_population
   \<and> (\<exists>rs. merge_datasets_v Pandas_before_3 example_unicef example_population example_mortality
             = ([], With_births_v rs)
         \<and> (Some ''nan'', (\<lparr> m_ISO3Code = None, m_Mortality_Status_Binary = None \<rparr>,
                           \<lparr> u_ANC4 = None, u_SBA = Some 12 \<rparr>), \<lparr> Births = Some 5 \<rparr>) \<in> set rs)"
proof -
  have m: "(None, \<lparr> m_ISO3Code = None, m_Mortality_Status_Binary = None \<rparr>) \<in> set example_mortality"
    by (simp add: example_mortality_def)
  have u: "(None, \<lparr> u_ANC4 = None, u_SBA = Some 12 \<rparr>) \<in> set example_unicef"
    by (simp add: example_unicef_def)
  have p: "(None, \<lparr> Births = Some 5 \<rparr>) \<in> set example_population"
    by (simp add: example_population_def)
  from null_country_name_flows [of Pandas_before_3 example_mortality None
      "\<lparr> m_ISO3Code = None, m_Mortality_Status_Binary = None \<rparr>"
      "\<lparr> m_ISO3Code = None, m_Mortality_Status_Binary = None \<rparr>" example_mortality
      "\<lparr> u_ANC4 = None, u_SBA = Some 12 \<rparr>" example_unicef "\<lparr> Births = Some 5 \<rparr>" example_population]
  show ?thesis using m u p by simp
qed

text \<open>
  C10 as stated fails from pandas 3 on: the name of the row is not the text \<open>nan\<close>, it
  stays missing, in the standardised table and in the merged one.
\<close>

theorem null_country_name_pandas_3_counterexample:
  "standardize_country_names_v Pandas_3 [(None, \<lparr> Births = Some 5 \<rparr>)] None
     = [(None, \<lparr> Births = Some 5 \<rparr>)]
   \<and> standardize_country_names_v Pandas_3 [(None, \<lparr> Births = Some 5 \<rparr>)] None
     \<noteq> [(Some ''nan'', \<lparr> Births = Some 5 \<rparr>)]
   \<and> merge_datasets_v Pandas_3 [(None, \<lparr> u_ANC4 = None, u_SBA = Some 12 \<rparr>)]
        [(None, \<lparr> Births = Some 5 \<rparr>)]
        [(None, \<lparr> m_ISO3Code = None, m_Mortality_Status_Binary = None \<rparr>)]
     = ([], With_births_v
         [(None, (\<lparr> m_ISO3Code = None, m_Mortality_Status_Binary = None \<rparr>,
                  \<lparr> u_ANC4 = None, u_SBA = Some 12 \<rparr>), \<lparr> Births = Some 5 \<rparr>)])"
  by (simp add: standardize_country_names_v_def standardize_name_v_None merge_datasets_v_def
      clean_table_v_def filter_individual_countries_v_def merge_inner_def Let_def)

section \<open>The most recent estimate\<close>

lemma last_filter_sat: "xs \<noteq> [] \<Longrightarrow> P (last xs) \<Longrightarrow> last (filter P xs) = last xs"
  by (induction xs rule: rev_induct) auto

















end
